theory Spec2Isabelle
  imports Complex_Main "HOL-Library.Log_Nat"
begin

section \<open>Python values\<close>

text \<open>
  The exceptions the modelled code can raise. \<open>HTTPError\<close> carries the status code that
  \<open>raise_for_status\<close> rejected, \<open>KeyError\<close> and \<open>AttributeError\<close> the key or attribute
  that was missing.
\<close>

datatype py_error =
    HTTPError nat
  | KeyError string
  | AttributeError string
  | TypeError
  | IndexError
  | ValueError
  | OverflowError

text \<open>
  A value inside a decoded JSON object, as far as the handlers look at it: \<open>null\<close>
  (Python's \<open>None\<close>), an integer or a string. A JSON object is a Python dict; it is kept
  as an association list and read with \<open>map_of\<close>.
\<close>

datatype jval = JNone | JInt int | JStr string

type_synonym jdict = "(string \<times> jval) list"

text \<open>\<open>d.get(k)\<close>: the value, or \<open>None\<close> when the key is absent.\<close>

definition dict_get :: "jdict \<Rightarrow> string \<Rightarrow> jval" where
  "dict_get d k = (case map_of d k of None \<Rightarrow> JNone | Some v \<Rightarrow> v)"

text \<open>\<open>d.get(k, default)\<close>.\<close>

definition dict_get_default :: "jdict \<Rightarrow> string \<Rightarrow> jval \<Rightarrow> jval" where
  "dict_get_default d k dflt = (case map_of d k of None \<Rightarrow> dflt | Some v \<Rightarrow> v)"

text \<open>
  \<open>d.name\<close> on a plain dict: a dict has no data attributes, so reading one raises
  \<open>AttributeError\<close> whatever keys the dict holds.
\<close>

definition dict_attr :: "jdict \<Rightarrow> string \<Rightarrow> py_error + jval" where
  "dict_attr d name = Inl (AttributeError name)"

section \<open>Double-precision arithmetic\<close>

text \<open>
  Python's \<open>float\<close> is an IEEE 754 binary64 number. A finite float is modelled by the
  rational it denotes (the sign of a zero is not kept), and every operation computes the
  exact rational result and rounds it to the nearest double, ties to the even significand.

  \<open>pow2 e\<close> is \<open>2\<close> to the power \<open>e\<close> for an integer \<open>e\<close>.
\<close>

definition pow2 :: "int \<Rightarrow> rat" where
  "pow2 e = (if 0 \<le> e then 2 ^ nat e else 1 / 2 ^ nat (- e))"

definition round_half_even :: "rat \<Rightarrow> int" where
  "round_half_even q =
     (let f = \<lfloor>q\<rfloor>; r = q - of_int f
      in if r < 1 / 2 then f
         else if 1 / 2 < r then f + 1
         else if even f then f else f + 1)"

text \<open>
  The exponent of the unit in the last place for a non-zero \<open>q\<close>: the \<open>e\<close> with
  \<open>2 ^ 52 \<le> \<bar>q\<bar> / 2 ^ e < 2 ^ 53\<close>, but never below \<open>- 1074\<close>, where the subnormal
  numbers start. For \<open>\<bar>q\<bar> = a / b\<close> the bit lengths of \<open>a\<close> and \<open>b\<close> place \<open>\<bar>q\<bar>\<close>
  strictly between \<open>2 ^ (e0 + 52)\<close> and \<open>2 ^ (e0 + 54)\<close>; one comparison decides.
\<close>

definition ulp_exp :: "rat \<Rightarrow> int" where
  "ulp_exp q =
     (let (a, b) = quotient_of \<bar>q\<bar>;
          e0 = bitlen a - bitlen b - 53;
          e = (if \<bar>q\<bar> < pow2 (e0 + 53) then e0 else e0 + 1)
      in max e (- 1074))"

text \<open>
  Rounding to the nearest double. A result of magnitude \<open>2 ^ 1024\<close> or more has
  overflowed; the test reads the bit length of the integer part, which exceeds \<open>1024\<close>
  exactly for those.
\<close>

definition fl :: "rat \<Rightarrow> rat" where
  "fl q = (if q = 0 then 0
           else let e = ulp_exp q in of_int (round_half_even (q / pow2 e)) * pow2 e)"

definition overflowed :: "rat \<Rightarrow> bool" where
  "overflowed r \<longleftrightarrow> 1024 < bitlen \<lfloor>\<bar>r\<bar>\<rfloor>"

text \<open>
  A float is finite or an infinity (\<open>True\<close> for the positive one). No operation of the
  modelled code can produce a NaN.
\<close>

datatype pyfloat = Finite rat | Infinity bool

text \<open>\<open>float(n)\<close> for an integer: raises \<open>OverflowError\<close> when \<open>n\<close> is too large.\<close>

definition py_float :: "int \<Rightarrow> py_error + rat" where
  "py_float n = (let r = fl (of_int n) in if overflowed r then Inl OverflowError else Inr r)"

text \<open>Multiplication of two finite floats: overflow gives an infinity, not an exception.\<close>

definition float_mul :: "rat \<Rightarrow> rat \<Rightarrow> pyfloat" where
  "float_mul x y =
     (let r = fl (x * y) in if overflowed r then Infinity (0 < r) else Finite r)"

text \<open>\<open>math.ceil\<close>, which returns a float in Python 2.\<close>

fun math_ceil :: "pyfloat \<Rightarrow> pyfloat" where
  "math_ceil (Finite r) = Finite (of_int \<lceil>r\<rceil>)"
| "math_ceil (Infinity s) = Infinity s"

section \<open>The local tables and the LMS\<close>

text \<open>
  The model classes are declared in a module that is not among the sources
  (\<open>models.py\<close>); the rows below carry the fields the handlers read and write, with the
  constructor arguments in the order the handlers pass them.
\<close>

record course_row =
  course_pk :: nat
  course_canvas_id :: int
  course_name :: jval

record user_row =
  user_sortable_name :: jval
  user_canvas_id :: jval
  user_sis_id :: jval

record quiz_row =
  quiz_canvas_id :: jval
  quiz_course_id :: int
  quiz_title :: jval

record extension_row =
  ext_course_id :: int
  ext_user_id :: int
  ext_percent :: int
  ext_active :: bool

text \<open>One request to the LMS, as the handlers issue it.\<close>

datatype call =
    Get_course int
  | Get_user int
  | Get_quizzes int
  | Post_extensions int jval "(int \<times> pyfloat) list"

text \<open>
  The state a handler runs in: the four tables, in row order, and the requests sent to
  the LMS so far (oldest first). Every row change is committed where the source commits,
  so an exception later in a handler does not undo it.
\<close>

record world =
  courses :: "course_row list"
  users :: "user_row list"
  quizzes :: "quiz_row list"
  extensions :: "extension_row list"
  calls :: "call list"

text \<open>
  The LMS as the handlers see it: the status and body of a course or user lookup, the
  list \<open>get_quizzes\<close> returns for a course (the decoded pages, plain dicts), and the status
  of an extension POST.
\<close>

record lms =
  course_response :: "int \<Rightarrow> nat \<times> jdict"
  user_response :: "int \<Rightarrow> nat \<times> jdict"
  quiz_list :: "int \<Rightarrow> jdict list"
  post_status :: "int \<Rightarrow> jval \<Rightarrow> (int \<times> pyfloat) list \<Rightarrow> nat"

definition log_call :: "call \<Rightarrow> world \<Rightarrow> world" where
  "log_call c w = w\<lparr>calls := calls w @ [c]\<rparr>"

text \<open>\<open>response.raise_for_status()\<close>: a 4xx or 5xx status raises \<open>HTTPError\<close>.\<close>

definition raise_for_status :: "nat \<times> jdict \<Rightarrow> py_error + jdict" where
  "raise_for_status r =
     (if 400 \<le> fst r \<and> fst r < 600 then Inl (HTTPError (fst r)) else Inr (snd r))"

definition get_user :: "lms \<Rightarrow> int \<Rightarrow> world \<Rightarrow> (py_error + jdict) \<times> world" where
  "get_user l user_id w = (raise_for_status (user_response l user_id), log_call (Get_user user_id) w)"

definition get_course :: "lms \<Rightarrow> int \<Rightarrow> world \<Rightarrow> (py_error + jdict) \<times> world" where
  "get_course l course_id w =
     (raise_for_status (course_response l course_id), log_call (Get_course course_id) w)"

definition get_quizzes :: "lms \<Rightarrow> int \<Rightarrow> world \<Rightarrow> jdict list \<times> world" where
  "get_quizzes l course_id w = (quiz_list l course_id, log_call (Get_quizzes course_id) w)"

section \<open>Extending one quiz\<close>

text \<open>
  The three messages of \<open>extend_quiz\<close>, the messages of \<open>update\<close>, each kept as its
  template with the values formatted into it:
  \<^item> \<open>No_time_limit q\<close>: "Quiz #q has no time limit, so there is no time to add."
  \<^item> \<open>Added t q\<close>: "Successfully added t minutes to quiz #q"
  \<^item> \<open>Extension_error q s\<close>: "Error creating extension for quiz #q. Canvas status code: s"
  \<^item> \<open>No_quizzes\<close>: "Sorry, there are no quizzes for this course."
  \<^item> \<open>Updated n k p m\<close>: "Success! n quizzes have been updated for k student(s) to have
    p% time. m quizzes have no time limit and were left unchanged."
\<close>

datatype message =
    No_time_limit jval
  | Added pyfloat jval
  | Extension_error jval nat
  | No_quizzes
  | Updated nat nat int nat

record ext_result =
  success :: bool
  message :: message
  added_time :: "pyfloat option"

text \<open>
  \<open>time_limit * ((float(percent) - 100) / 100) if percent else 0\<close>, under \<open>math.ceil\<close>.
  The time limit has passed the test \<open>time_limit is None or time_limit < 1\<close>; a string
  passes it too (Python 2 orders every number below every string) and then cannot be
  multiplied by a float. \<open>float(percent)\<close> is evaluated before the multiplication converts
  the time limit.
\<close>

definition added_time_of :: "jval \<Rightarrow> int \<Rightarrow> py_error + pyfloat" where
  "added_time_of time_limit percent =
     (if percent = 0 then Inr (math_ceil (Finite 0))
      else case py_float percent of
        Inl e \<Rightarrow> Inl e
      | Inr p \<Rightarrow>
          (let factor = fl (fl (p - 100) / 100)
           in case time_limit of
                JInt t \<Rightarrow>
                  (case py_float t of
                     Inl e \<Rightarrow> Inl e
                   | Inr tf \<Rightarrow> Inr (math_ceil (float_mul tf factor)))
              | _ \<Rightarrow> Inl TypeError))"

text \<open>\<open>time_limit is None or time_limit < 1\<close>.\<close>

fun no_time_limit :: "jval \<Rightarrow> bool" where
  "no_time_limit JNone = True"
| "no_time_limit (JInt t) = (t < 1)"
| "no_time_limit (JStr s) = False"

text \<open>
  \<open>extend_quiz\<close>, the same text in both modules. The body of the POST is the list of
  \<open>user_id\<close>, \<open>extra_time\<close> pairs, one per requested user.
\<close>

definition extend_quiz ::
  "lms \<Rightarrow> int \<Rightarrow> jdict \<Rightarrow> int \<Rightarrow> int list \<Rightarrow> world \<Rightarrow> (py_error + ext_result) \<times> world" where
  "extend_quiz l course_id quiz percent user_id_list w =
     (let quiz_id = dict_get quiz ''id'';
          time_limit = dict_get quiz ''time_limit''
      in if no_time_limit time_limit
         then (Inr \<lparr>success = True, message = No_time_limit quiz_id, added_time = None\<rparr>, w)
         else case added_time_of time_limit percent of
           Inl e \<Rightarrow> (Inl e, w)
         | Inr added \<Rightarrow>
             (let quiz_extensions = map (\<lambda>user_id. (user_id, added)) user_id_list;
                  status_code = post_status l course_id quiz_id quiz_extensions;
                  w' = log_call (Post_extensions course_id quiz_id quiz_extensions) w
              in if status_code = 200
                 then (Inr \<lparr>success = True, message = Added added quiz_id,
                            added_time = Some added\<rparr>, w')
                 else (Inr \<lparr>success = False, message = Extension_error quiz_id status_code,
                            added_time = None\<rparr>, w')))"

text \<open>The value the specification gives for the added time, in exact arithmetic.\<close>

definition spec_added_time :: "int \<Rightarrow> int \<Rightarrow> int" where
  "spec_added_time time_limit percent =
     \<lceil>(of_int time_limit * (of_int percent - 100) / 100 :: rat)\<rceil>"

section \<open>Missing quizzes\<close>

text \<open>
  \<open>missing_quizzes\<close> of the utils module. \<open>Quiz.query.filter_by(canvas_id=...).first()\<close> is
  the first row with that id, if any; a quiz without one is appended to the result, and
  with \<open>quickcheck\<close> the loop breaks there.
\<close>

fun missing_loop :: "quiz_row list \<Rightarrow> bool \<Rightarrow> jdict list \<Rightarrow> jdict list" where
  "missing_loop rows quickcheck [] = []"
| "missing_loop rows quickcheck (canvas_quiz # rest) =
     (case find (\<lambda>q. quiz_canvas_id q = dict_get canvas_quiz ''id'') rows of
        Some quiz \<Rightarrow> missing_loop rows quickcheck rest
      | None \<Rightarrow>
          if quickcheck then [canvas_quiz]
          else canvas_quiz # missing_loop rows quickcheck rest)"

definition missing_quizzes :: "lms \<Rightarrow> int \<Rightarrow> bool \<Rightarrow> world \<Rightarrow> jdict list \<times> world" where
  "missing_quizzes l course_id quickcheck w =
     (case get_quizzes l course_id w of
        (quiz_dicts, w') \<Rightarrow> (missing_loop (quizzes w') quickcheck quiz_dicts, w'))"

text \<open>
  \<open>missing_quizzes\<close> of the views module: the same loop, but the id is read as the
  attribute \<open>canvas_quiz.id\<close>.
\<close>

fun views_missing_loop :: "quiz_row list \<Rightarrow> bool \<Rightarrow> jdict list \<Rightarrow> py_error + jdict list" where
  "views_missing_loop rows quickcheck [] = Inr []"
| "views_missing_loop rows quickcheck (canvas_quiz # rest) =
     (case dict_attr canvas_quiz ''id'' of
        Inl e \<Rightarrow> Inl e
      | Inr quiz_id \<Rightarrow>
          (case find (\<lambda>q. quiz_canvas_id q = quiz_id) rows of
             Some quiz \<Rightarrow> views_missing_loop rows quickcheck rest
           | None \<Rightarrow>
               if quickcheck then Inr [canvas_quiz]
               else (case views_missing_loop rows quickcheck rest of
                       Inl e \<Rightarrow> Inl e
                     | Inr missing_list \<Rightarrow> Inr (canvas_quiz # missing_list))))"

definition views_missing_quizzes ::
  "lms \<Rightarrow> int \<Rightarrow> bool \<Rightarrow> world \<Rightarrow> (py_error + jdict list) \<times> world" where
  "views_missing_quizzes l course_id quickcheck w =
     (case get_quizzes l course_id w of
        (quiz_dicts, w') \<Rightarrow> (views_missing_loop (quizzes w') quickcheck quiz_dicts, w'))"

section \<open>Searching users\<close>

text \<open>
  The response to the search request: the decoded body (\<open>None\<close> when it is not JSON, a
  JSON object or a JSON array of objects otherwise) and the parsed \<open>Link\<close> header, a dict
  from the relation to the link's own dict.
\<close>

datatype json_body = JObject jdict | JArray "jdict list"

record http_response =
  body :: "json_body option"
  links :: "(string \<times> (string \<times> string) list) list"

text \<open>\<open>'errors' in user_list\<close>: a key of an object; never an element of an array of objects.\<close>

fun errors_in :: "json_body \<Rightarrow> bool" where
  "errors_in (JObject d) = (''errors'' \<in> fst ` set d)"
| "errors_in (JArray xs) = False"

text \<open>
  \<open>search_users\<close>. The request is answered by \<open>users_get\<close>. Two library functions are
  parameters: \<open>query_dict url\<close> stands for \<open>parse_qs(urlsplit(url).query)\<close> and
  \<open>py_int s\<close> for \<open>int(s)\<close>, which is \<open>None\<close> where \<open>int\<close> raises \<open>ValueError\<close>.
\<close>

definition search_users ::
  "(int \<Rightarrow> int \<Rightarrow> int \<Rightarrow> string \<Rightarrow> http_response) \<Rightarrow> (string \<Rightarrow> (string \<times> string list) list) \<Rightarrow>
   (string \<Rightarrow> int option) \<Rightarrow> int \<Rightarrow> int \<Rightarrow> int \<Rightarrow> string \<Rightarrow> py_error + (json_body \<times> int)" where
  "search_users users_get query_dict py_int course_id per_page page search_term =
     (let users_response = users_get course_id per_page page search_term
      in case body users_response of
           None \<Rightarrow> Inl ValueError
         | Some user_list \<Rightarrow>
             if errors_in user_list then Inr (JArray [], 0)
             else (case map_of (links users_response) ''last'' of
                     None \<Rightarrow> Inl (KeyError ''last'')
                   | Some link \<Rightarrow>
                       (case map_of link ''url'' of
                          None \<Rightarrow> Inl (KeyError ''url'')
                        | Some url \<Rightarrow>
                            (case map_of (query_dict url) ''page'' of
                               None \<Rightarrow> Inl (KeyError ''page'')
                             | Some [] \<Rightarrow> Inl IndexError
                             | Some (first_page # _) \<Rightarrow>
                                 (case py_int first_page of
                                    None \<Rightarrow> Inl ValueError
                                  | Some num_pages \<Rightarrow> Inr (user_list, num_pages))))))"

section \<open>The update handler\<close>

text \<open>Changing the first row that satisfies \<open>P\<close>: the row \<open>first()\<close> returned.\<close>

fun update_first :: "('a \<Rightarrow> bool) \<Rightarrow> ('a \<Rightarrow> 'a) \<Rightarrow> 'a list \<Rightarrow> 'a list" where
  "update_first P f [] = []"
| "update_first P f (x # xs) = (if P x then f x # xs else x # update_first P f xs)"

text \<open>
  The decoded JSON body of the request: the two keys the handler reads, each present or
  not, and the names of any other keys (an empty dict is false in Python).
\<close>

record request_json =
  json_user_ids :: "int list option"
  json_percent :: "int option"
  json_other_keys :: "string list"

definition json_empty :: "request_json \<Rightarrow> bool" where
  "json_empty pj \<longleftrightarrow>
     json_user_ids pj = None \<and> json_percent pj = None \<and> json_other_keys pj = []"

text \<open>
  What a handler returns: a plain string, or the JSON text of an error with its message,
  or of a success with its message, the list of (title, added time) and the list of
  unchanged titles.
\<close>

datatype response =
    Text string
  | Json_error message
  | Json_success message "(jval \<times> pyfloat) list" "jval list"

text \<open>Add or update the course row; a new row gets the next primary key.\<close>

definition upsert_course :: "int \<Rightarrow> jval \<Rightarrow> world \<Rightarrow> world" where
  "upsert_course course_id name w =
     (case find (\<lambda>c. course_canvas_id c = course_id) (courses w) of
        None \<Rightarrow>
          w\<lparr>courses := courses w @
               [\<lparr>course_pk = Suc (length (courses w)), course_canvas_id = course_id,
                 course_name = name\<rparr>]\<rparr>
      | Some course \<Rightarrow>
          w\<lparr>courses := update_first (\<lambda>c. course_canvas_id c = course_id)
               (\<lambda>c. c\<lparr>course_canvas_id := course_id, course_name := name\<rparr>) (courses w)\<rparr>)"

text \<open>
  One round of the loop over \<open>user_ids\<close>. The user row is looked up first; a failed
  fetch (\<open>get_user\<close> raises nothing but \<open>HTTPError\<close>) goes on to the next id; otherwise the
  user row and then the extension row are created or updated.
\<close>

definition update_user :: "lms \<Rightarrow> int \<Rightarrow> int \<Rightarrow> int \<Rightarrow> world \<Rightarrow> world" where
  "update_user l course_id percent user_id w =
     (let user = find (\<lambda>u. user_canvas_id u = JInt user_id) (users w)
      in case get_user l user_id w of
           (Inl e, w1) \<Rightarrow> w1
         | (Inr canvas_user, w1) \<Rightarrow>
             (let sortable_name =
                    dict_get_default canvas_user ''sortable_name'' (JStr ''<MISSING NAME>'');
                  canvas_user_id = dict_get canvas_user ''id'';
                  sis_id = dict_get canvas_user ''sis_user_id'';
                  w2 = (case user of
                          None \<Rightarrow>
                            w1\<lparr>users := users w1 @
                                 [\<lparr>user_sortable_name = sortable_name,
                                   user_canvas_id = canvas_user_id, user_sis_id = sis_id\<rparr>]\<rparr>
                        | Some u0 \<Rightarrow>
                            w1\<lparr>users := update_first (\<lambda>u. user_canvas_id u = JInt user_id)
                                 (\<lambda>u. u\<lparr>user_sortable_name := sortable_name,
                                         user_canvas_id := canvas_user_id,
                                         user_sis_id := sis_id\<rparr>) (users w1)\<rparr>)
              in case find (\<lambda>e. ext_course_id e = course_id \<and> ext_user_id e = user_id)
                        (extensions w2) of
                   None \<Rightarrow>
                     w2\<lparr>extensions := extensions w2 @
                          [\<lparr>ext_course_id = course_id, ext_user_id = user_id,
                            ext_percent = percent, ext_active = True\<rparr>]\<rparr>
                 | Some e0 \<Rightarrow>
                     w2\<lparr>extensions :=
                          update_first (\<lambda>e. ext_course_id e = course_id \<and> ext_user_id e = user_id)
                            (\<lambda>e. e\<lparr>ext_percent := percent\<rparr>) (extensions w2)\<rparr>))"

fun update_users :: "lms \<Rightarrow> int \<Rightarrow> int \<Rightarrow> int list \<Rightarrow> world \<Rightarrow> world" where
  "update_users l course_id percent [] w = w"
| "update_users l course_id percent (user_id # rest) w =
     update_users l course_id percent rest (update_user l course_id percent user_id w)"

text \<open>Add or update the quiz row.\<close>

definition upsert_quiz :: "jval \<Rightarrow> int \<Rightarrow> jval \<Rightarrow> world \<Rightarrow> world" where
  "upsert_quiz quiz_id course_id title w =
     (case find (\<lambda>q. quiz_canvas_id q = quiz_id) (quizzes w) of
        None \<Rightarrow>
          w\<lparr>quizzes := quizzes w @
               [\<lparr>quiz_canvas_id = quiz_id, quiz_course_id = course_id,
                 quiz_title = title\<rparr>]\<rparr>
      | Some quiz_obj \<Rightarrow>
          w\<lparr>quizzes := update_first (\<lambda>q. quiz_canvas_id q = quiz_id)
               (\<lambda>q. q\<lparr>quiz_canvas_id := quiz_id, quiz_course_id := course_id,
                       quiz_title := title\<rparr>) (quizzes w)\<rparr>)"

text \<open>
  The loop over the quizzes ends in one of three ways: an exception leaves the handler,
  a \<open>return\<close> inside the loop answers the request, or the list is exhausted and the two
  result lists go on to the final message.
\<close>

datatype loop_result =
    Raised py_error
  | Returned response
  | Completed "(jval \<times> pyfloat) list" "jval list"

fun update_quizzes ::
  "lms \<Rightarrow> int \<Rightarrow> int \<Rightarrow> int list \<Rightarrow> jdict list \<Rightarrow> (jval \<times> pyfloat) list \<Rightarrow> jval list \<Rightarrow> world \<Rightarrow>
   loop_result \<times> world" where
  "update_quizzes l course_id percent user_ids [] quiz_time_list unchanged_list w =
     (Completed quiz_time_list unchanged_list, w)"
| "update_quizzes l course_id percent user_ids (quiz # rest) quiz_time_list unchanged_list w =
     (let quiz_id = dict_get_default quiz ''id'' JNone;
          title = dict_get_default quiz ''title'' (JStr ''[UNTITLED QUIZ]'');
          w1 = upsert_quiz quiz_id course_id title w;
          ext = extend_quiz l course_id quiz percent user_ids w1
      in case fst ext of
           Inl e \<Rightarrow> (Raised e, snd ext)
         | Inr extension_response \<Rightarrow>
             if success extension_response
             then (case added_time extension_response of
                     Some added \<Rightarrow>
                       update_quizzes l course_id percent user_ids rest
                         (quiz_time_list @ [(title, added)]) unchanged_list (snd ext)
                   | None \<Rightarrow>
                       update_quizzes l course_id percent user_ids rest
                         quiz_time_list (unchanged_list @ [title]) (snd ext))
             else (Returned (Json_error (message extension_response)), snd ext))"

text \<open>
  \<open>update\<close>. The course id is \<open>None\<close> when the route passed none. An exception leaves the
  handler with the rows committed so far.
\<close>

definition update ::
  "lms \<Rightarrow> int option \<Rightarrow> request_json option \<Rightarrow> world \<Rightarrow> (py_error + response) \<times> world" where
  "update l course_id_opt post_json w =
     (case course_id_opt of
        None \<Rightarrow> (Inr (Text ''course_id required''), w)
      | Some course_id \<Rightarrow>
          (case post_json of
             None \<Rightarrow> (Inr (Text ''invalid request''), w)
           | Some pj \<Rightarrow>
               if json_empty pj then (Inr (Text ''invalid request''), w)
               else (case get_course l course_id w of
                       (Inl e, w1) \<Rightarrow> (Inl e, w1)
                     | (Inr course_json, w1) \<Rightarrow>
                         (let name = dict_get_default course_json ''name''
                                       (JStr ''<UNNAMED COURSE>'');
                              w2 = upsert_course course_id name w1;
                              user_ids = (case json_user_ids pj of None \<Rightarrow> [] | Some us \<Rightarrow> us)
                          in case json_percent pj of
                               None \<Rightarrow> (Inr (Text ''percent required''), w2)
                             | Some percent \<Rightarrow>
                                 if percent = 0 then (Inr (Text ''percent required''), w2)
                                 else (let w3 = update_users l course_id percent user_ids w2;
                                           got = get_quizzes l course_id w3
                                       in if length (fst got) < 1
                                          then (Inr (Json_error No_quizzes), snd got)
                                          else (case update_quizzes l course_id percent user_ids
                                                       (fst got) [] [] (snd got) of
                                                  (Raised e, w5) \<Rightarrow> (Inl e, w5)
                                                | (Returned r, w5) \<Rightarrow> (Inr r, w5)
                                                | (Completed quiz_time_list unchanged_list, w5) \<Rightarrow>
                                                    (Inr (Json_success
                                                       (Updated (length quiz_time_list)
                                                          (length user_ids) percent
                                                          (length unchanged_list))
                                                       quiz_time_list unchanged_list), w5)))))))"

section \<open>The refresh handler\<close>

text \<open>
  \<open>course.extensions\<close>: the extension rows that refer to the course row by its primary key.
\<close>

definition course_extensions :: "world \<Rightarrow> course_row \<Rightarrow> extension_row list" where
  "course_extensions w course =
     filter (\<lambda>e. ext_course_id e = int (course_pk course)) (extensions w)"

text \<open>
  \<open>percent_user_map[extension.percent].append(extension.user_id)\<close> on a
  \<open>defaultdict(list)\<close>, the groups kept in the order their percent first occurred.
\<close>

definition group_append :: "int \<Rightarrow> int \<Rightarrow> (int \<times> int list) list \<Rightarrow> (int \<times> int list) list" where
  "group_append k v m =
     (case map_of m k of
        None \<Rightarrow> m @ [(k, [v])]
      | Some vs \<Rightarrow> map (\<lambda>kv. if fst kv = k then (fst kv, snd kv @ [v]) else kv) m)"

fun percent_user_map ::
  "extension_row list \<Rightarrow> (int \<times> int list) list \<Rightarrow> (int \<times> int list) list" where
  "percent_user_map [] m = m"
| "percent_user_map (extension # rest) m =
     percent_user_map rest (group_append (ext_percent extension) (ext_user_id extension) m)"

text \<open>The inner loop: one \<open>extend_quiz\<close> per percent group, its result dropped.\<close>

fun refresh_groups ::
  "lms \<Rightarrow> int \<Rightarrow> jdict \<Rightarrow> (int \<times> int list) list \<Rightarrow> world \<Rightarrow> py_error option \<times> world" where
  "refresh_groups l course_id quiz [] w = (None, w)"
| "refresh_groups l course_id quiz (percent_users # rest) w =
     (let ext = extend_quiz l course_id quiz (fst percent_users) (snd percent_users) w
      in case fst ext of
           Inl e \<Rightarrow> (Some e, snd ext)
         | Inr r \<Rightarrow> refresh_groups l course_id quiz rest (snd ext))"

fun refresh_quizzes ::
  "lms \<Rightarrow> int \<Rightarrow> jdict list \<Rightarrow> (int \<times> int list) list \<Rightarrow> world \<Rightarrow> py_error option \<times> world" where
  "refresh_quizzes l course_id [] groups w = (None, w)"
| "refresh_quizzes l course_id (quiz # rest) groups w =
     (let pushed = refresh_groups l course_id quiz groups w
      in case fst pushed of
           Some e \<Rightarrow> (Some e, snd pushed)
         | None \<Rightarrow> refresh_quizzes l course_id rest groups (snd pushed))"

text \<open>
  \<open>refresh\<close>. It calls the \<open>missing_quizzes\<close> of its own module. The handler ends without a
  \<open>return\<close> when the loops are through; that is the result \<open>None\<close>.
\<close>

definition refresh :: "lms \<Rightarrow> int \<Rightarrow> world \<Rightarrow> (py_error + response option) \<times> world" where
  "refresh l course_id w =
     (case find (\<lambda>c. course_canvas_id c = course_id) (courses w) of
        None \<Rightarrow> (Inr (Some (Text ''Course not found'')), w)
      | Some course \<Rightarrow>
          (let groups = percent_user_map (course_extensions w course) [];
               missing = views_missing_quizzes l course_id False w
           in case fst missing of
                Inl e \<Rightarrow> (Inl e, snd missing)
              | Inr quiz_dicts \<Rightarrow>
                  (case refresh_quizzes l course_id quiz_dicts groups (snd missing) of
                     (Some e, w') \<Rightarrow> (Inl e, w')
                   | (None, w') \<Rightarrow> (Inr None, w'))))"

section \<open>Concrete inputs\<close>

text \<open>An LMS that answers every lookup with an empty object and accepts every POST.\<close>

definition lms_accepting :: lms where
  "lms_accepting =
     \<lparr>course_response = (\<lambda>_. (200, [])), user_response = (\<lambda>_. (200, [])),
      quiz_list = (\<lambda>_. []), post_status = (\<lambda>_ _ _. 200)\<rparr>"

definition empty_world :: world where
  "empty_world = \<lparr>courses = [], users = [], quizzes = [], extensions = [], calls = []\<rparr>"

text \<open>
  A course with three quizzes in the LMS, the second of them already in the quiz table.
\<close>

definition three_quizzes :: "jdict list" where
  "three_quizzes =
     [[(''id'', JInt 1), (''title'', JStr ''Quiz 1'')],
      [(''id'', JInt 2), (''title'', JStr ''Quiz 2'')],
      [(''id'', JInt 3), (''title'', JStr ''Quiz 3'')]]"

definition lms_three :: lms where
  "lms_three = lms_accepting\<lparr>quiz_list := (\<lambda>_. three_quizzes)\<rparr>"

definition world_quiz2 :: world where
  "world_quiz2 =
     empty_world\<lparr>quizzes := [\<lparr>quiz_canvas_id = JInt 2, quiz_course_id = 1,
                               quiz_title = JStr ''Quiz 2''\<rparr>]\<rparr>"

text \<open>
  Two answers to a user search: a list of one user with no \<open>Link\<close> header at all, and an
  error object.
\<close>

definition users_get_no_last :: "int \<Rightarrow> int \<Rightarrow> int \<Rightarrow> string \<Rightarrow> http_response" where
  "users_get_no_last course_id per_page page search_term =
     \<lparr>body = Some (JArray [[(''id'', JInt 1), (''name'', JStr ''John Smith'')]]), links = []\<rparr>"

definition users_get_errors :: "int \<Rightarrow> int \<Rightarrow> int \<Rightarrow> string \<Rightarrow> http_response" where
  "users_get_errors course_id per_page page search_term =
     \<lparr>body = Some (JObject [(''errors'', JStr ''An error occurred.'')]), links = []\<rparr>"

(*DEFS-MORE*)

section \<open>Properties\<close>

text \<open>
  C1. The added time of \<open>extend_quiz\<close> against the specified
  \<open>ceil(time_limit * (percent - 100) / 100)\<close>. The two examples of the specification come
  out as stated: 10 minutes for a limit of 10 at 200 percent, 30 minutes for a limit of 30.
  The general equation does not hold of the code: it divides \<open>percent - 100\<close> by 100 in
  double precision before multiplying, and for a limit of 25 minutes at 128 percent the
  rounded product lies just above 7, so the code adds 8 minutes where the formula gives 7.
\<close>

theorem extend_quiz_added_time_at_25_128:
  "fst (extend_quiz lms_accepting 1 [(''id'', JInt 2), (''time_limit'', JInt 10)] 200 [1, 2, 3]
          empty_world)
     = Inr \<lparr>success = True, message = Added (Finite 10) (JInt 2),
            added_time = Some (Finite 10)\<rparr>
   \<and> fst (extend_quiz lms_accepting 1 [(''id'', JInt 2), (''time_limit'', JInt 30)] 200 [1, 2, 3]
          empty_world)
     = Inr \<lparr>success = True, message = Added (Finite 30) (JInt 2),
            added_time = Some (Finite 30)\<rparr>
   \<and> fst (extend_quiz lms_accepting 1 [(''id'', JInt 2), (''time_limit'', JInt 25)] 128 [1, 2, 3]
          empty_world)
     = Inr \<lparr>success = True, message = Added (Finite 8) (JInt 2),
            added_time = Some (Finite 8)\<rparr>
   \<and> spec_added_time 25 128 = 7"
  by code_simp

text \<open>
  C2. A quiz whose \<open>time_limit\<close> is absent, \<open>None\<close> or an integer below 1 is reported as a
  success with no added time, whatever the course, the percent and the users are, and the
  state comes back as it was: no request has been sent to the LMS.
\<close>

theorem extend_quiz_no_time_limit:
  assumes "map_of quiz ''time_limit'' = None \<or> map_of quiz ''time_limit'' = Some JNone
     \<or> (\<exists>t. map_of quiz ''time_limit'' = Some (JInt t) \<and> t < 1)"
  shows "extend_quiz l course_id quiz percent user_id_list w =
    (Inr \<lparr>success = True, message = No_time_limit (dict_get quiz ''id''), added_time = None\<rparr>,
     w)"
proof -
  from assms have "no_time_limit (dict_get quiz ''time_limit'')"
    by (auto simp: dict_get_def)
  then show ?thesis by (simp add: extend_quiz_def)
qed

theorem extend_quiz_no_time_limit_witness:
  "extend_quiz lms_accepting 1 [(''id'', JInt 2), (''title'', JStr ''A Quiz'')] 200 [1, 2, 3]
     empty_world =
    (Inr \<lparr>success = True, message = No_time_limit (JInt 2), added_time = None\<rparr>, empty_world)"
proof -
  have h: "map_of [(''id'', JInt 2), (''title'', JStr ''A Quiz'')] ''time_limit'' = None"
    by simp
  have g: "dict_get [(''id'', JInt 2), (''title'', JStr ''A Quiz'')] ''id'' = JInt 2"
    by (simp add: dict_get_def)
  show ?thesis
    using extend_quiz_no_time_limit
      [of "[(''id'', JInt 2), (''title'', JStr ''A Quiz'')]" lms_accepting 1 200 "[1, 2, 3]"
          empty_world] h g
    by simp
qed

subsection \<open>Missing quizzes\<close>

lemma find_key_None: "(find (\<lambda>q. f q = k) rows = None) = (k \<notin> f ` set rows)"
  by (induction rows) auto

lemma missing_loop_all:
  "missing_loop rows False qs =
     filter (\<lambda>cq. dict_get cq ''id'' \<notin> quiz_canvas_id ` set rows) qs"
proof (induction qs)
  case Nil
  show ?case by simp
next
  case (Cons cq qs)
  show ?case
  proof (cases "find (\<lambda>q. quiz_canvas_id q = dict_get cq ''id'') rows")
    case None
    then have "dict_get cq ''id'' \<notin> quiz_canvas_id ` set rows"
      by (simp add: find_key_None)
    with None Cons show ?thesis by simp
  next
    case (Some r)
    then have "find (\<lambda>q. quiz_canvas_id q = dict_get cq ''id'') rows \<noteq> None" by simp
    then have "dict_get cq ''id'' \<in> quiz_canvas_id ` set rows"
      by (simp add: find_key_None)
    with Some Cons show ?thesis by simp
  qed
qed

lemma missing_loop_quick:
  "missing_loop rows True qs =
     take 1 (filter (\<lambda>cq. dict_get cq ''id'' \<notin> quiz_canvas_id ` set rows) qs)"
proof (induction qs)
  case Nil
  show ?case by simp
next
  case (Cons cq qs)
  show ?case
  proof (cases "find (\<lambda>q. quiz_canvas_id q = dict_get cq ''id'') rows")
    case None
    then have "dict_get cq ''id'' \<notin> quiz_canvas_id ` set rows"
      by (simp add: find_key_None)
    with None show ?thesis by simp
  next
    case (Some r)
    then have "find (\<lambda>q. quiz_canvas_id q = dict_get cq ''id'') rows \<noteq> None" by simp
    then have "dict_get cq ''id'' \<in> quiz_canvas_id ` set rows"
      by (simp add: find_key_None)
    with Some Cons show ?thesis by simp
  qed
qed

text \<open>
  C4. \<open>missing_quizzes\<close> of the utils module returns the quizzes of the LMS list whose id
  is the \<open>canvas_id\<close> of no row of the quiz table, in the order of the LMS list; with
  \<open>quickcheck\<close> it returns the first of them only, so at most one entry.
\<close>

theorem missing_quizzes_is_filter:
  "fst (missing_quizzes l course_id False w) =
     filter (\<lambda>cq. dict_get cq ''id'' \<notin> quiz_canvas_id ` set (quizzes w)) (quiz_list l course_id)
   \<and> fst (missing_quizzes l course_id True w) =
     take 1 (filter (\<lambda>cq. dict_get cq ''id'' \<notin> quiz_canvas_id ` set (quizzes w))
               (quiz_list l course_id))
   \<and> length (fst (missing_quizzes l course_id True w)) \<le> 1"
  by (simp add: missing_quizzes_def get_quizzes_def log_call_def missing_loop_all
      missing_loop_quick)

text \<open>
  C9. The two definitions of \<open>missing_quizzes\<close> on the same list of plain dictionaries
  and the same quiz table: with the quizzes 1, 2, 3 in the LMS and quiz 2 in the table, the
  utils definition returns the quizzes 1 and 3, and the views definition raises
  \<open>AttributeError\<close> at the first quiz, since \<open>canvas_quiz.id\<close> is not a key lookup.
\<close>

theorem missing_quizzes_views_differs:
  "fst (missing_quizzes lms_three 1 False world_quiz2) =
      [[(''id'', JInt 1), (''title'', JStr ''Quiz 1'')],
       [(''id'', JInt 3), (''title'', JStr ''Quiz 3'')]]
   \<and> fst (views_missing_quizzes lms_three 1 False world_quiz2) = Inl (AttributeError ''id'')"
  by code_simp

subsection \<open>Searching users\<close>

text \<open>
  C10. \<open>search_users\<close> does not return for every response. When the body is a list of
  users and the response carries no \<open>last\<close> link, reading \<open>links['last']\<close> raises
  \<open>KeyError\<close> and no pair is returned. The empty result with page count 0 is what an error
  object gives: there the function returns before it reads the links.
\<close>

theorem search_users_no_last_link:
  "(body (users_get course_id per_page page search_term) = Some (JArray user_dicts)
      \<and> map_of (links (users_get course_id per_page page search_term)) ''last'' = None
     \<longrightarrow> search_users users_get query_dict py_int course_id per_page page search_term
           = Inl (KeyError ''last''))
   \<and> (body (users_get course_id per_page page search_term) = Some user_list
      \<and> errors_in user_list
     \<longrightarrow> search_users users_get query_dict py_int course_id per_page page search_term
           = Inr (JArray [], 0))"
  by (simp add: search_users_def)

theorem search_users_no_last_link_witness:
  "search_users users_get_no_last (\<lambda>url. []) (\<lambda>s. None) 1 10 1 [] = Inl (KeyError ''last'')
   \<and> search_users users_get_errors (\<lambda>url. []) (\<lambda>s. None) 1 10 1 [] = Inr (JArray [], 0)"
proof -
  have a: "body (users_get_no_last 1 10 1 []) =
             Some (JArray [[(''id'', JInt 1), (''name'', JStr ''John Smith'')]])
           \<and> map_of (links (users_get_no_last 1 10 1 [])) ''last'' = None"
    by (simp add: users_get_no_last_def)
  have b: "body (users_get_errors 1 10 1 []) =
             Some (JObject [(''errors'', JStr ''An error occurred.'')])
           \<and> errors_in (JObject [(''errors'', JStr ''An error occurred.'')])"
    by (simp add: users_get_errors_def)
  from a search_users_no_last_link
         [of users_get_no_last 1 10 1 "[]"
             "[[(''id'', JInt 1), (''name'', JStr ''John Smith'')]]" "\<lambda>url. []" "\<lambda>s. None"]
  have 1: "search_users users_get_no_last (\<lambda>url. []) (\<lambda>s. None) 1 10 1 []
             = Inl (KeyError ''last'')"
    by blast
  from b search_users_no_last_link
         [of users_get_errors 1 10 1 "[]" _ "\<lambda>url. []" "\<lambda>s. None"
             "JObject [(''errors'', JStr ''An error occurred.'')]"]
  have 2: "search_users users_get_errors (\<lambda>url. []) (\<lambda>s. None) 1 10 1 [] = Inr (JArray [], 0)"
    by blast
  from 1 2 show ?thesis by simp
qed

(*THMS-MORE*)

end
